theory Spec2Isabelle
  imports Complex_Main
begin

section \<open>The PBOC fixing model (fixing_app.py)\<close>

text \<open>
  The script computes a predicted USD/CNY fixing from yesterday's close, yesterday's
  fixing, the overnight moves of three basket currencies and a manual counter-cyclical
  factor. This theory embeds the weight table \<open>WEIGHTS\<close>, the extractor
  \<open>get_market_data\<close>, the function \<open>calculate_basket_impact\<close> and the calculation
  engine of the page body.

  Numbers. Python's \<open>float\<close> values are idealised as \<^typ>\<open>real\<close>: every sum, product and
  quotient is exact, and there is no rounding, infinity or NaN. The integer the slider
  returns is an \<^typ>\<open>int\<close>, converted where Python converts it. Statements below are
  therefore statements about the formulas of the script, not about IEEE rounding.
\<close>

subsection \<open>Exceptions as values\<close>

datatype py_error =
    KeyError string
  | IndexError
  | ZeroDivisionError
  | FeedError

text \<open>Sequencing of fallible steps: the first exception raised is the outcome.\<close>

definition and_then :: "py_error + 'a \<Rightarrow> ('a \<Rightarrow> py_error + 'b) \<Rightarrow> py_error + 'b" where
  "and_then r f = (case r of Inl e \<Rightarrow> Inl e | Inr v \<Rightarrow> f v)"

text \<open>\<open>d[k]\<close> on a dict: the value, or KeyError. A dict is an association list.\<close>

definition getitem :: "(string \<times> 'v) list \<Rightarrow> string \<Rightarrow> py_error + 'v" where
  "getitem d k = (case map_of d k of None \<Rightarrow> Inl (KeyError k) | Some v \<Rightarrow> Inr v)"

text \<open>\<open>a / b\<close> on Python floats raises ZeroDivisionError on a zero divisor.\<close>

definition py_truediv :: "real \<Rightarrow> real \<Rightarrow> py_error + real" where
  "py_truediv a b = (if b = 0 then Inl ZeroDivisionError else Inr (a / b))"

subsection \<open>The weight table\<close>

type_synonym weights = "(string \<times> real) list"

definition WEIGHTS :: weights where
  "WEIGHTS =
     [(''USD'', 0.198),
      (''EUR'', 0.180),
      (''JPY'', 0.090),
      (''KRW'', 0.080),
      (''GBP'', 0.030),
      (''AUD'', 0.050)]"

subsection \<open>The market snapshot\<close>

text \<open>
  \<open>market_data\<close> is either \<open>None\<close> or a dict from pair name to a dict with the keys
  \<open>rate\<close> and \<open>chg\<close>.
\<close>

type_synonym quote = "(string \<times> real) list"
type_synonym market_data = "(string \<times> quote) list"

text \<open>Python truthiness of \<open>market_data\<close>: \<open>None\<close> and the empty dict are false.\<close>

definition truthy :: "market_data option \<Rightarrow> bool" where
  "truthy m = (case m of None \<Rightarrow> False | Some d \<Rightarrow> d \<noteq> [])"

subsection \<open>calculate_basket_impact\<close>

text \<open>
  The module global \<open>WEIGHTS\<close> that the function reads is its first argument here; the
  script's function is the instance at \<^const>\<open>WEIGHTS\<close>.
  \<open>weight_share W c\<close> is the subexpression \<open>WEIGHTS[c] / (1 - WEIGHTS['USD'])\<close>, with
  the lookups in Python's left-to-right order.
\<close>

definition weight_share :: "weights \<Rightarrow> string \<Rightarrow> py_error + real" where
  "weight_share W c =
     and_then (getitem W c) (\<lambda>w.
     and_then (getitem W ''USD'') (\<lambda>u.
     py_truediv w (1 - u)))"

text \<open>\<open>market_data[pair]['chg']\<close>.\<close>

definition chg_of :: "market_data \<Rightarrow> string \<Rightarrow> py_error + real" where
  "chg_of d pair = and_then (getitem d pair) (\<lambda>q. getitem q ''chg'')"

definition calculate_basket_impact ::
    "weights \<Rightarrow> real \<Rightarrow> market_data option \<Rightarrow> py_error + real" where
  "calculate_basket_impact W prev_fix market_data =
     (if \<not> truthy market_data then Inr 0
      else case market_data of
        None \<Rightarrow> Inr 0
      | Some d \<Rightarrow>
          and_then (chg_of d ''EURUSD'') (\<lambda>eur_move.
          and_then (weight_share W ''EUR'') (\<lambda>se.
          and_then (chg_of d ''USDJPY'') (\<lambda>jpy_move.
          and_then (weight_share W ''JPY'') (\<lambda>sj.
          and_then (chg_of d ''GBPUSD'') (\<lambda>gbp_move.
          and_then (weight_share W ''GBP'') (\<lambda>sg.
            Inr (0 - (eur_move * se) * prev_fix * 10000
                   + (jpy_move * sj) * prev_fix * 10000
                   - (gbp_move * sg) * prev_fix * 10000))))))))"

subsection \<open>get_market_data\<close>

text \<open>
  What \<open>yf.download(...)['Close']\<close> hands back is an input of the model: an exception, or
  a table of daily closes with one column per ticker symbol and one row per day, oldest
  first. A row is a function from column name to close, read only at the frame's columns,
  so that every row has the same columns, as in a pandas frame.
\<close>

record dataframe =
  df_columns :: "string list"
  df_rows :: "(string \<Rightarrow> real) list"

datatype series = Series (ser_index: "string list") (ser_values: "string \<Rightarrow> real")

text \<open>\<open>df.iloc[-k]\<close> for \<open>k \<ge> 1\<close>: the k-th row from the end, or IndexError.\<close>

definition iloc_neg :: "dataframe \<Rightarrow> nat \<Rightarrow> py_error + series" where
  "iloc_neg df k =
     (if 1 \<le> k \<and> k \<le> length (df_rows df)
      then Inr (Series (df_columns df) (df_rows df ! (length (df_rows df) - k)))
      else Inl IndexError)"

text \<open>
  Elementwise arithmetic of two rows of one frame (their indexes coincide). On a zero
  divisor numpy does not raise but yields an infinity or NaN, which \<^typ>\<open>real\<close> does not
  have: the quotient of the model is meaningful for nonzero divisors only, and the
  properties of the extractor are stated for nonzero previous closes.
\<close>

definition series_sub :: "series \<Rightarrow> series \<Rightarrow> series" where
  "series_sub a b = Series (ser_index a) (\<lambda>c. ser_values a c - ser_values b c)"

definition series_div :: "series \<Rightarrow> series \<Rightarrow> series" where
  "series_div a b = Series (ser_index a) (\<lambda>c. ser_values a c / ser_values b c)"

text \<open>\<open>s[c]\<close> on a row: the value in column \<open>c\<close>, or KeyError.\<close>

definition series_getitem :: "series \<Rightarrow> string \<Rightarrow> py_error + real" where
  "series_getitem s c =
     (if c \<in> set (ser_index s) then Inr (ser_values s c) else Inl (KeyError c))"

definition tickers :: "(string \<times> string) list" where
  "tickers =
     [(''EURUSD'', ''EURUSD=X''),
      (''USDJPY'', ''JPY=X''),
      (''GBPUSD'', ''GBPUSD=X''),
      (''AUDUSD'', ''AUDUSD=X''),
      (''USDCNY'', ''CNY=X'')]"

text \<open>
  One entry of the result:
  \<open>{'rate': last_close[tickers[pair]], 'chg': changes[tickers[pair]]}\<close>.
\<close>

definition quote_of :: "series \<Rightarrow> series \<Rightarrow> string \<Rightarrow> py_error + quote" where
  "quote_of last_close changes pair =
     and_then (getitem tickers pair) (\<lambda>t.
     and_then (series_getitem last_close t) (\<lambda>r.
     and_then (getitem tickers pair) (\<lambda>t'.
     and_then (series_getitem changes t') (\<lambda>c.
       Inr [(''rate'', r), (''chg'', c)]))))"

text \<open>The body of the \<open>try\<close> block, with its exceptions as values.\<close>

definition fetch_snapshot :: "py_error + dataframe \<Rightarrow> py_error + market_data" where
  "fetch_snapshot download =
     and_then download (\<lambda>df.
     and_then (iloc_neg df 1) (\<lambda>last_close.
     and_then (iloc_neg df 2) (\<lambda>prev_close.
     let changes = series_div (series_sub last_close prev_close) prev_close in
     and_then (quote_of last_close changes ''EURUSD'') (\<lambda>eurusd.
     and_then (quote_of last_close changes ''USDJPY'') (\<lambda>usdjpy.
     and_then (quote_of last_close changes ''GBPUSD'') (\<lambda>gbpusd.
     and_then (quote_of last_close changes ''AUDUSD'') (\<lambda>audusd.
       Inr [(''EURUSD'', eurusd),
            (''USDJPY'', usdjpy),
            (''GBPUSD'', gbpusd),
            (''AUDUSD'', audusd)])))))))"

text \<open>\<open>except Exception\<close>: any exception of the block becomes the result \<open>None\<close>.\<close>

definition get_market_data :: "py_error + dataframe \<Rightarrow> market_data option" where
  "get_market_data download =
     (case fetch_snapshot download of Inl e \<Rightarrow> None | Inr data \<Rightarrow> Some data)"

subsection \<open>The calculation engine\<close>

text \<open>
  The page body from \<open>gap_pips\<close> to the volatility alert, as a function of the two number
  inputs, the slider value and the snapshot. The record holds what the page shows:
  the three components of the chart, the total, the final prediction, the value printed
  as theoretical fix, \<open>predicted_fix - (ccf_pips/10000)\<close>, and whether the alert is shown.
  The four metrics above it only format the snapshot and are left out.
\<close>

record prediction =
  gap_pips :: real
  basket_pips :: real
  ccf_pips :: int
  total_change_pips :: real
  predicted_fix :: real
  theoretical_fix :: real
  volatility_alert :: bool

definition calculation_engine ::
    "weights \<Rightarrow> real \<Rightarrow> real \<Rightarrow> int \<Rightarrow> market_data option \<Rightarrow> py_error + prediction" where
  "calculation_engine W prev_close prev_fix ccf_input market_data =
     (let gap = (prev_close - prev_fix) * 10000 in
      and_then (calculate_basket_impact W prev_fix market_data) (\<lambda>basket.
      let ccf = ccf_input;
          total = gap + basket + real_of_int ccf;
          predicted = prev_fix + (total / 10000)
      in Inr \<lparr>gap_pips = gap,
               basket_pips = basket,
               ccf_pips = ccf,
               total_change_pips = total,
               predicted_fix = predicted,
               theoretical_fix = predicted - (real_of_int ccf / 10000),
               volatility_alert = (\<bar>predicted - prev_close\<bar> > 0.0500)\<rparr>))"

text \<open>
  The slider that supplies \<open>ccf_input\<close>: its bounds and its default. They belong to the
  input widget; the calculation engine above never reads them.
\<close>

definition ccf_slider_min :: int where
  "ccf_slider_min = -100"

definition ccf_slider_max :: int where
  "ccf_slider_max = 100"

definition ccf_slider_default :: int where
  "ccf_slider_default = -10"

subsection \<open>What the specification says of the extractor\<close>

text \<open>The symbols the extractor reads from the frame (the fifth is only requested).\<close>

definition used_symbols :: "string list" where
  "used_symbols = [''EURUSD=X'', ''JPY=X'', ''GBPUSD=X'', ''AUDUSD=X'']"

text \<open>
  The last row of a frame and the one before it. They are read only for frames of at
  least two rows.
\<close>

definition latest :: "dataframe \<Rightarrow> string \<Rightarrow> real" where
  "latest df = df_rows df ! (length (df_rows df) - 1)"

definition prior :: "dataframe \<Rightarrow> string \<Rightarrow> real" where
  "prior df = df_rows df ! (length (df_rows df) - 2)"

text \<open>
  The snapshot of the specification: for each of the four pairs, \<open>rate\<close> is the latest
  close and \<open>chg = (latest_close - prior_close) / prior_close\<close>.
\<close>

definition spec_quote :: "dataframe \<Rightarrow> string \<Rightarrow> quote" where
  "spec_quote df s =
     [(''rate'', latest df s), (''chg'', (latest df s - prior df s) / prior df s)]"

definition spec_snapshot :: "dataframe \<Rightarrow> market_data" where
  "spec_snapshot df =
     [(''EURUSD'', spec_quote df ''EURUSD=X''),
      (''USDJPY'', spec_quote df ''JPY=X''),
      (''GBPUSD'', spec_quote df ''GBPUSD=X''),
      (''AUDUSD'', spec_quote df ''AUDUSD=X'')]"

text \<open>
  A failed fetch: the download raised, or the frame has fewer than two rows, or one of
  the four symbols is not among its columns.
\<close>

definition fetch_failed :: "py_error + dataframe \<Rightarrow> bool" where
  "fetch_failed download =
     (case download of
        Inl e \<Rightarrow> True
      | Inr df \<Rightarrow> length (df_rows df) < 2 \<or> \<not> set used_symbols \<subseteq> set (df_columns df))"

text \<open>A complete snapshot: the four pairs, each with a rate and a change.\<close>

definition complete_snapshot :: "market_data \<Rightarrow> bool" where
  "complete_snapshot d =
     (map fst d = [''EURUSD'', ''USDJPY'', ''GBPUSD'', ''AUDUSD''] \<and>
      list_all (\<lambda>q. map fst q = [''rate'', ''chg'']) (map snd d))"

section \<open>Properties\<close>

subsection \<open>Evaluation lemmas\<close>

lemma and_then_Inr [simp]: "and_then (Inr v) f = f v"
  by (simp add: and_then_def)

lemma and_then_Inl [simp]: "and_then (Inl e) f = Inl e"
  by (simp add: and_then_def)

lemma truthy_simps [simp]:
  "truthy None = False" "truthy (Some []) = False" "truthy (Some (p # d)) = True"
  by (simp_all add: truthy_def)

lemma and_then_eq_Inl_iff:
  "and_then r f = Inl e \<longleftrightarrow> r = Inl e \<or> (\<exists>v. r = Inr v \<and> f v = Inl e)"
  by (cases r) simp_all

lemma and_then_eq_Inr_iff:
  "and_then r f = Inr y \<longleftrightarrow> (\<exists>v. r = Inr v \<and> f v = Inr y)"
  by (cases r) simp_all

lemma getitem_eq_Inr_iff: "getitem d k = Inr v \<longleftrightarrow> map_of d k = Some v"
  by (simp add: getitem_def split: option.splits)

lemma getitem_not_zero_division: "getitem d k \<noteq> Inl ZeroDivisionError"
  by (simp add: getitem_def split: option.splits)

lemma getitem_Nil: "getitem [] k = Inl (KeyError k)"
  by (simp add: getitem_def)

lemma chg_of_not_zero_division: "chg_of d p \<noteq> Inl ZeroDivisionError"
  by (simp add: chg_of_def and_then_eq_Inl_iff getitem_not_zero_division)

lemma chg_of_Nil: "chg_of [] p = Inl (KeyError p)"
  by (simp add: chg_of_def getitem_Nil)

subsection \<open>The basket impact\<close>

lemma weight_share_value:
  "map_of W c = Some w \<Longrightarrow> map_of W ''USD'' = Some u \<Longrightarrow> u \<noteq> 1 \<Longrightarrow>
   weight_share W c = Inr (w / (1 - u))"
  by (simp add: weight_share_def getitem_def py_truediv_def)

lemma weight_share_zero_division:
  "weight_share W c = Inl ZeroDivisionError \<Longrightarrow> map_of W ''USD'' = Some 1"
  by (auto simp: weight_share_def and_then_eq_Inl_iff getitem_not_zero_division
      getitem_eq_Inr_iff py_truediv_def split: if_splits)

lemma basket_zero_division:
  "calculate_basket_impact W prev_fix market_data = Inl ZeroDivisionError \<Longrightarrow>
   map_of W ''USD'' = Some 1"
  by (auto simp: calculate_basket_impact_def and_then_eq_Inl_iff chg_of_not_zero_division
      split: if_splits option.splits dest: weight_share_zero_division)

lemma basket_value:
  assumes "chg_of d ''EURUSD'' = Inr e" "chg_of d ''USDJPY'' = Inr j"
    and "chg_of d ''GBPUSD'' = Inr g"
    and "map_of W ''EUR'' = Some we" "map_of W ''JPY'' = Some wj"
    and "map_of W ''GBP'' = Some wg"
    and "map_of W ''USD'' = Some u" "u \<noteq> 1"
  shows "calculate_basket_impact W prev_fix (Some d) =
     Inr (- (e * (we / (1 - u))) * prev_fix * 10000
          + (j * (wj / (1 - u))) * prev_fix * 10000
          - (g * (wg / (1 - u))) * prev_fix * 10000)"
proof -
  have "d \<noteq> []" using assms(1) by (auto simp: chg_of_Nil)
  then have "truthy (Some d)" by (simp add: truthy_def)
  then show ?thesis
    using assms by (simp add: calculate_basket_impact_def weight_share_value)
qed

lemma chg_of_skip: "pair \<noteq> k \<Longrightarrow> chg_of ((k, q) # d) pair = chg_of d pair"
  by (simp add: chg_of_def getitem_def)

lemma basket_absent: "calculate_basket_impact W prev_fix None = Inr 0"
  by (simp add: calculate_basket_impact_def)

subsection \<open>The extractor\<close>

lemma tickers_simps:
  "map_of tickers ''EURUSD'' = Some ''EURUSD=X''"
  "map_of tickers ''USDJPY'' = Some ''JPY=X''"
  "map_of tickers ''GBPUSD'' = Some ''GBPUSD=X''"
  "map_of tickers ''AUDUSD'' = Some ''AUDUSD=X''"
  "map_of tickers ''USDCNY'' = Some ''CNY=X''"
  by (simp_all add: tickers_def)

lemma quote_of_value:
  assumes "map_of tickers pair = Some s" and "s \<in> set cols"
  shows "quote_of (Series cols l)
           (series_div (series_sub (Series cols l) (Series cols p)) (Series cols p)) pair
         = Inr [(''rate'', l s), (''chg'', (l s - p s) / p s)]"
  using assms
  by (simp add: quote_of_def getitem_def series_getitem_def series_div_def series_sub_def)

lemma quote_of_missing:
  assumes "map_of tickers pair = Some s" and "s \<notin> set cols"
  shows "quote_of (Series cols l) changes pair = Inl (KeyError s)"
  using assms
  by (simp add: quote_of_def getitem_def series_getitem_def)

lemma iloc_last_two:
  assumes "2 \<le> length (df_rows df)"
  shows "iloc_neg df 1 = Inr (Series (df_columns df) (latest df))"
    and "iloc_neg df (Suc 0) = Inr (Series (df_columns df) (latest df))"
    and "iloc_neg df 2 = Inr (Series (df_columns df) (prior df))"
  using assms by (simp_all add: iloc_neg_def latest_def prior_def)

lemma fetch_snapshot_ok:
  assumes "2 \<le> length (df_rows df)" and "set used_symbols \<subseteq> set (df_columns df)"
  shows "fetch_snapshot (Inr df) = Inr (spec_snapshot df)"
proof -
  from assms(2) have c: "''EURUSD=X'' \<in> set (df_columns df)"
    "''JPY=X'' \<in> set (df_columns df)"
    "''GBPUSD=X'' \<in> set (df_columns df)"
    "''AUDUSD=X'' \<in> set (df_columns df)"
    by (simp_all add: used_symbols_def)
  note i = iloc_last_two [OF assms(1)]
  show ?thesis
    by (simp add: fetch_snapshot_def i Let_def
        quote_of_value [OF tickers_simps(1) c(1)] quote_of_value [OF tickers_simps(2) c(2)]
        quote_of_value [OF tickers_simps(3) c(3)] quote_of_value [OF tickers_simps(4) c(4)]
        spec_snapshot_def spec_quote_def)
qed

lemma fetch_snapshot_failed:
  assumes "fetch_failed download"
  shows "\<exists>e. fetch_snapshot download = Inl e"
proof (cases download)
  case (Inl e)
  then show ?thesis by (simp add: fetch_snapshot_def)
next
  case (Inr df)
  show ?thesis
  proof (cases "2 \<le> length (df_rows df)")
    case False
    then have "iloc_neg df 2 = Inl IndexError" by (simp add: iloc_neg_def)
    then show ?thesis
      using Inr by (cases "iloc_neg df 1") (simp_all add: fetch_snapshot_def)
  next
    case True
    note i = iloc_last_two [OF True]
    from True assms Inr have "\<not> set used_symbols \<subseteq> set (df_columns df)"
      by (simp add: fetch_failed_def)
    then consider "''EURUSD=X'' \<notin> set (df_columns df)"
      | "''JPY=X'' \<notin> set (df_columns df)"
      | "''GBPUSD=X'' \<notin> set (df_columns df)"
      | "''AUDUSD=X'' \<notin> set (df_columns df)"
      by (auto simp: used_symbols_def)
    then show ?thesis
    proof cases
      case 1
      show ?thesis
        by (simp add: Inr fetch_snapshot_def i Let_def
            quote_of_missing [OF tickers_simps(1) 1])
    next
      case 2
      show ?thesis
        by (simp add: Inr fetch_snapshot_def i Let_def
            quote_of_missing [OF tickers_simps(2) 2] and_then_def split: sum.splits)
    next
      case 3
      show ?thesis
        by (simp add: Inr fetch_snapshot_def i Let_def
            quote_of_missing [OF tickers_simps(3) 3] and_then_def split: sum.splits)
    next
      case 4
      show ?thesis
        by (simp add: Inr fetch_snapshot_def i Let_def
            quote_of_missing [OF tickers_simps(4) 4] and_then_def split: sum.splits)
    qed
  qed
qed

lemma get_market_data_failed: "fetch_failed download \<Longrightarrow> get_market_data download = None"
  using fetch_snapshot_failed [of download] by (auto simp: get_market_data_def)

lemma get_market_data_ok:
  "\<not> fetch_failed (Inr df) \<Longrightarrow> get_market_data (Inr df) = Some (spec_snapshot df)"
  by (simp add: get_market_data_def fetch_failed_def fetch_snapshot_ok)

lemma get_market_data_None_iff: "get_market_data download = None \<longleftrightarrow> fetch_failed download"
proof (cases download)
  case (Inl e)
  then show ?thesis by (simp add: get_market_data_def fetch_snapshot_def fetch_failed_def)
next
  case (Inr df)
  show ?thesis
  proof (cases "fetch_failed (Inr df)")
    case True
    then show ?thesis by (simp add: Inr get_market_data_failed)
  next
    case False
    then show ?thesis by (simp add: Inr get_market_data_ok)
  qed
qed

lemma complete_spec_snapshot: "complete_snapshot (spec_snapshot df)"
  by (simp add: complete_snapshot_def spec_snapshot_def spec_quote_def)

lemma get_market_data_complete:
  assumes "get_market_data download = Some data"
  shows "complete_snapshot data"
proof (cases download)
  case (Inl e)
  with assms show ?thesis by (simp add: get_market_data_def fetch_snapshot_def)
next
  case (Inr df)
  with assms have "\<not> fetch_failed (Inr df)"
    using get_market_data_failed [of download] by auto
  then have "get_market_data (Inr df) = Some (spec_snapshot df)"
    by (rule get_market_data_ok)
  with assms Inr have "data = spec_snapshot df" by simp
  then show ?thesis by (simp add: complete_spec_snapshot)
qed

subsection \<open>The calculation engine\<close>

lemma engine_value:
  "calculate_basket_impact W prev_fix market_data = Inr b \<Longrightarrow>
   calculation_engine W prev_close prev_fix ccf market_data =
     Inr \<lparr>gap_pips = (prev_close - prev_fix) * 10000,
          basket_pips = b,
          ccf_pips = ccf,
          total_change_pips = (prev_close - prev_fix) * 10000 + b + real_of_int ccf,
          predicted_fix =
            prev_fix + ((prev_close - prev_fix) * 10000 + b + real_of_int ccf) / 10000,
          theoretical_fix =
            prev_fix + ((prev_close - prev_fix) * 10000 + b + real_of_int ccf) / 10000
              - real_of_int ccf / 10000,
          volatility_alert =
            (\<bar>prev_fix + ((prev_close - prev_fix) * 10000 + b + real_of_int ccf) / 10000
               - prev_close\<bar> > 0.0500)\<rparr>"
  by (simp add: calculation_engine_def Let_def)

lemma engine_cases:
  assumes "calculation_engine W prev_close prev_fix ccf market_data = Inr r"
  obtains b where "calculate_basket_impact W prev_fix market_data = Inr b"
    and "r = \<lparr>gap_pips = (prev_close - prev_fix) * 10000,
          basket_pips = b,
          ccf_pips = ccf,
          total_change_pips = (prev_close - prev_fix) * 10000 + b + real_of_int ccf,
          predicted_fix =
            prev_fix + ((prev_close - prev_fix) * 10000 + b + real_of_int ccf) / 10000,
          theoretical_fix =
            prev_fix + ((prev_close - prev_fix) * 10000 + b + real_of_int ccf) / 10000
              - real_of_int ccf / 10000,
          volatility_alert =
            (\<bar>prev_fix + ((prev_close - prev_fix) * 10000 + b + real_of_int ccf) / 10000
               - prev_close\<bar> > 0.0500)\<rparr>"
  using assms by (auto simp: calculation_engine_def Let_def and_then_eq_Inr_iff)

lemma engine_raises:
  "calculate_basket_impact W prev_fix market_data = Inl e \<Longrightarrow>
   calculation_engine W prev_close prev_fix ccf market_data = Inl e"
  by (simp add: calculation_engine_def Let_def)

section \<open>The claims\<close>

text \<open>
  C1. Whenever the engine produces a prediction (for every previous close, previous
  fixing, slider value and snapshot, present or absent):
  \<open>total_change_pips = gap_pips + basket_pips + ccf_pips\<close>,
  \<open>predicted_fix = prev_fix + total_change_pips / 10000\<close> and
  \<open>theoretical_fix = predicted_fix - ccf_pips / 10000\<close>; hence
  \<open>theoretical_fix + ccf_pips / 10000 = predicted_fix\<close> and
  \<open>theoretical_fix = prev_fix + (gap_pips + basket_pips) / 10000\<close>.
\<close>

theorem aggregation_identities:
  assumes "calculation_engine W prev_close prev_fix ccf market_data = Inr r"
  shows "total_change_pips r = gap_pips r + basket_pips r + real_of_int (ccf_pips r) \<and>
         ccf_pips r = ccf \<and>
         predicted_fix r = prev_fix + total_change_pips r / 10000 \<and>
         theoretical_fix r = predicted_fix r - real_of_int (ccf_pips r) / 10000 \<and>
         theoretical_fix r + real_of_int (ccf_pips r) / 10000 = predicted_fix r \<and>
         theoretical_fix r = prev_fix + (gap_pips r + basket_pips r) / 10000"
  using assms by (rule engine_cases) (simp add: field_simps)

text \<open>
  The end-to-end scenario of the specification: close 6.9850, fixing 6.9820, CCF -10,
  no market data.
\<close>

theorem aggregation_identities_witness:
  "\<exists>r. calculation_engine WEIGHTS 6.9850 6.9820 (-10) None = Inr r \<and>
       total_change_pips r = gap_pips r + basket_pips r + real_of_int (ccf_pips r) \<and>
       ccf_pips r = -10 \<and>
       predicted_fix r = 6.9820 + total_change_pips r / 10000 \<and>
       theoretical_fix r = predicted_fix r - real_of_int (ccf_pips r) / 10000 \<and>
       theoretical_fix r + real_of_int (ccf_pips r) / 10000 = predicted_fix r \<and>
       theoretical_fix r = 6.9820 + (gap_pips r + basket_pips r) / 10000 \<and>
       gap_pips r = 30 \<and> basket_pips r = 0 \<and> total_change_pips r = 20 \<and>
       predicted_fix r = 6.9840 \<and> theoretical_fix r = 6.9850"
proof -
  let ?r = "\<lparr>gap_pips = 30, basket_pips = 0, ccf_pips = -10, total_change_pips = 20,
             predicted_fix = 6.9840, theoretical_fix = 6.9850, volatility_alert = False\<rparr>"
  have h: "calculation_engine WEIGHTS 6.9850 6.9820 (-10) None = Inr ?r"
    by (simp add: calculation_engine_def calculate_basket_impact_def Let_def)
  note c = aggregation_identities [OF h]
  have v: "gap_pips ?r = 30 \<and> basket_pips ?r = 0 \<and> total_change_pips ?r = 20 \<and>
       predicted_fix ?r = 6.9840 \<and> theoretical_fix ?r = 6.9850"
    by simp
  from h c v show ?thesis by blast
qed

text \<open>
  C2. For a snapshot that holds the three changes and a weight table with
  \<open>W[USD] < 1\<close>, the basket component is the three-term sum of the EUR, JPY and GBP
  contributions; it is 0 when the three changes are 0, whatever the weights and the
  previous fixing; and the AUDUSD entry of the snapshot does not enter it.
\<close>

theorem basket_three_term_sum:
  assumes "chg_of d ''EURUSD'' = Inr e" and "chg_of d ''USDJPY'' = Inr j"
    and "chg_of d ''GBPUSD'' = Inr g"
    and "map_of W ''EUR'' = Some we" and "map_of W ''JPY'' = Some wj"
    and "map_of W ''GBP'' = Some wg"
    and "map_of W ''USD'' = Some u" and "u < 1"
  shows "calculate_basket_impact W prev_fix (Some d) =
           Inr (- (e * (we / (1 - u))) * prev_fix * 10000
                + (j * (wj / (1 - u))) * prev_fix * 10000
                - (g * (wg / (1 - u))) * prev_fix * 10000) \<and>
         (e = 0 \<and> j = 0 \<and> g = 0 \<longrightarrow> calculate_basket_impact W prev_fix (Some d) = Inr 0) \<and>
         calculate_basket_impact W prev_fix (Some ((''AUDUSD'', q) # d)) =
           calculate_basket_impact W prev_fix (Some d)"
proof -
  from \<open>u < 1\<close> have u: "u \<noteq> 1" by simp
  note v = basket_value [OF assms(1-7) u]
  have a: "chg_of ((''AUDUSD'', q) # d) ''EURUSD'' = Inr e"
    "chg_of ((''AUDUSD'', q) # d) ''USDJPY'' = Inr j"
    "chg_of ((''AUDUSD'', q) # d) ''GBPUSD'' = Inr g"
    using assms(1-3) by (simp_all add: chg_of_skip)
  note v' = basket_value [OF a assms(4-7) u]
  show ?thesis
    by (simp add: v v')
qed

text \<open>
  The configured table with the changes -0.005, 0.003 and -0.002; another AUDUSD quote
  in front; and the snapshot whose three changes are 0.
\<close>

theorem basket_three_term_sum_witness:
  "calculate_basket_impact WEIGHTS 6.9820
     (Some [(''EURUSD'', [(''rate'', 1.0850), (''chg'', -0.005)]),
            (''USDJPY'', [(''rate'', 150.25), (''chg'', 0.003)]),
            (''GBPUSD'', [(''rate'', 1.2700), (''chg'', -0.002)]),
            (''AUDUSD'', [(''rate'', 0.6550), (''chg'', 0.004)])])
     = Inr (- (-0.005 * (0.180 / (1 - 0.198))) * 6.9820 * 10000
            + (0.003 * (0.090 / (1 - 0.198))) * 6.9820 * 10000
            - (-0.002 * (0.030 / (1 - 0.198))) * 6.9820 * 10000) \<and>
   calculate_basket_impact WEIGHTS 6.9820
     (Some ((''AUDUSD'', [(''rate'', 0.7000), (''chg'', 0.5)]) #
            [(''EURUSD'', [(''rate'', 1.0850), (''chg'', -0.005)]),
             (''USDJPY'', [(''rate'', 150.25), (''chg'', 0.003)]),
             (''GBPUSD'', [(''rate'', 1.2700), (''chg'', -0.002)]),
             (''AUDUSD'', [(''rate'', 0.6550), (''chg'', 0.004)])]))
     = calculate_basket_impact WEIGHTS 6.9820
         (Some [(''EURUSD'', [(''rate'', 1.0850), (''chg'', -0.005)]),
                (''USDJPY'', [(''rate'', 150.25), (''chg'', 0.003)]),
                (''GBPUSD'', [(''rate'', 1.2700), (''chg'', -0.002)]),
                (''AUDUSD'', [(''rate'', 0.6550), (''chg'', 0.004)])]) \<and>
   calculate_basket_impact WEIGHTS 6.9820
     (Some [(''EURUSD'', [(''rate'', 1.0850), (''chg'', 0)]),
            (''USDJPY'', [(''rate'', 150.25), (''chg'', 0)]),
            (''GBPUSD'', [(''rate'', 1.2700), (''chg'', 0)]),
            (''AUDUSD'', [(''rate'', 0.6550), (''chg'', 0.004)])])
     = Inr 0"
proof -
  let ?d = "[(''EURUSD'', [(''rate'', 1.0850), (''chg'', -0.005)]),
            (''USDJPY'', [(''rate'', 150.25), (''chg'', 0.003)]),
            (''GBPUSD'', [(''rate'', 1.2700), (''chg'', -0.002)]),
            (''AUDUSD'', [(''rate'', 0.6550), (''chg'', 0.004 :: real)])]"
  let ?z = "[(''EURUSD'', [(''rate'', 1.0850), (''chg'', 0)]),
            (''USDJPY'', [(''rate'', 150.25), (''chg'', 0)]),
            (''GBPUSD'', [(''rate'', 1.2700), (''chg'', 0)]),
            (''AUDUSD'', [(''rate'', 0.6550), (''chg'', 0.004 :: real)])]"
  have d: "chg_of ?d ''EURUSD'' = Inr (-0.005)" "chg_of ?d ''USDJPY'' = Inr 0.003"
    "chg_of ?d ''GBPUSD'' = Inr (-0.002)"
    by (simp_all add: chg_of_def getitem_def)
  have z: "chg_of ?z ''EURUSD'' = Inr 0" "chg_of ?z ''USDJPY'' = Inr 0"
    "chg_of ?z ''GBPUSD'' = Inr 0"
    by (simp_all add: chg_of_def getitem_def)
  have w: "map_of WEIGHTS ''EUR'' = Some 0.180" "map_of WEIGHTS ''JPY'' = Some 0.090"
    "map_of WEIGHTS ''GBP'' = Some 0.030" "map_of WEIGHTS ''USD'' = Some 0.198"
    by (simp_all add: WEIGHTS_def)
  have u: "(0.198 :: real) < 1" by simp
  note t = basket_three_term_sum [OF d w u, of "6.9820" "[(''rate'', 0.7000), (''chg'', 0.5)]"]
  note t0 = basket_three_term_sum [OF z w u, of "6.9820"]
  have "calculate_basket_impact WEIGHTS 6.9820 (Some ?z) = Inr 0"
    using t0 [THEN conjunct2, THEN conjunct1] by blast
  with t show ?thesis by blast
qed

text \<open>
  C3. The gap component is \<open>(prev_close - prev_fix) * 10000\<close>; it enters the total and
  the prediction with the factor 1, and it is the same for every weight table, snapshot
  and slider value.
\<close>

theorem gap_at_full_weight:
  assumes "calculation_engine W prev_close prev_fix ccf market_data = Inr r"
  shows "gap_pips r = (prev_close - prev_fix) * 10000 \<and>
         total_change_pips r = 1 * gap_pips r + basket_pips r + real_of_int ccf \<and>
         predicted_fix r
           = prev_fix + (1 * gap_pips r + basket_pips r + real_of_int ccf) / 10000 \<and>
         (\<forall>W' ccf' market_data' r'.
            calculation_engine W' prev_close prev_fix ccf' market_data' = Inr r' \<longrightarrow>
            gap_pips r' = gap_pips r)"
proof -
  have "gap_pips r' = (prev_close - prev_fix) * 10000"
    if "calculation_engine W' prev_close prev_fix ccf' market_data' = Inr r'"
    for W' ccf' market_data' r'
    using that by (rule engine_cases) simp
  moreover have "total_change_pips r = 1 * gap_pips r + basket_pips r + real_of_int ccf \<and>
         predicted_fix r
           = prev_fix + (1 * gap_pips r + basket_pips r + real_of_int ccf) / 10000"
    using assms by (rule engine_cases) simp
  ultimately show ?thesis using assms by simp
qed

text \<open>
  Two runs on the same close and fixing, with different slider values and snapshots.
\<close>

theorem gap_at_full_weight_witness:
  "\<exists>r r'. calculation_engine WEIGHTS 6.9850 6.9820 (-10) None = Inr r \<and>
     calculation_engine WEIGHTS 6.9850 6.9820 50 (Some []) = Inr r' \<and>
     gap_pips r = (6.9850 - 6.9820) * 10000 \<and>
     total_change_pips r = 1 * gap_pips r + basket_pips r + real_of_int (-10) \<and>
     gap_pips r' = gap_pips r \<and> gap_pips r = 30"
proof -
  let ?r = "\<lparr>gap_pips = 30, basket_pips = 0, ccf_pips = -10, total_change_pips = 20,
             predicted_fix = 6.9840, theoretical_fix = 6.9850, volatility_alert = False\<rparr>"
  let ?r' = "\<lparr>gap_pips = 30, basket_pips = 0, ccf_pips = 50, total_change_pips = 80,
             predicted_fix = 6.9900, theoretical_fix = 6.9850, volatility_alert = False\<rparr>"
  have h: "calculation_engine WEIGHTS 6.9850 6.9820 (-10) None = Inr ?r"
    by (simp add: calculation_engine_def calculate_basket_impact_def Let_def)
  have h': "calculation_engine WEIGHTS 6.9850 6.9820 50 (Some []) = Inr ?r'"
    by (simp add: calculation_engine_def calculate_basket_impact_def Let_def)
  note c = gap_at_full_weight [OF h]
  have v: "gap_pips ?r = 30" by simp
  from h h' c v show ?thesis by blast
qed

text \<open>
  C4. A failed fetch (the download raised, fewer than two rows, or one of the four
  symbols missing) gives the result \<open>None\<close>, and only a failed fetch does; a snapshot
  that is returned is complete, never partial. With the snapshot absent the basket
  component is 0 and the engine returns the full prediction, built from the gap and the
  CCF alone.
\<close>

theorem failed_fetch_degrades:
  "(fetch_failed download \<longrightarrow> get_market_data download = None) \<and>
   (get_market_data download = None \<longleftrightarrow> fetch_failed download) \<and>
   (\<forall>data. get_market_data download = Some data \<longrightarrow> complete_snapshot data) \<and>
   calculate_basket_impact W prev_fix None = Inr 0 \<and>
   calculation_engine W prev_close prev_fix ccf None =
     Inr \<lparr>gap_pips = (prev_close - prev_fix) * 10000,
          basket_pips = 0,
          ccf_pips = ccf,
          total_change_pips = (prev_close - prev_fix) * 10000 + 0 + real_of_int ccf,
          predicted_fix =
            prev_fix + ((prev_close - prev_fix) * 10000 + 0 + real_of_int ccf) / 10000,
          theoretical_fix =
            prev_fix + ((prev_close - prev_fix) * 10000 + 0 + real_of_int ccf) / 10000
              - real_of_int ccf / 10000,
          volatility_alert =
            (\<bar>prev_fix + ((prev_close - prev_fix) * 10000 + 0 + real_of_int ccf) / 10000
               - prev_close\<bar> > 0.0500)\<rparr>"
proof (intro conjI impI allI)
  assume "fetch_failed download"
  then show "get_market_data download = None" by (rule get_market_data_failed)
next
  show "get_market_data download = None \<longleftrightarrow> fetch_failed download"
    by (rule get_market_data_None_iff)
next
  fix data assume "get_market_data download = Some data"
  then show "complete_snapshot data" by (rule get_market_data_complete)
next
  show "calculate_basket_impact W prev_fix None = Inr 0" by (rule basket_absent)
next
  show "calculation_engine W prev_close prev_fix ccf None =
     Inr \<lparr>gap_pips = (prev_close - prev_fix) * 10000,
          basket_pips = 0,
          ccf_pips = ccf,
          total_change_pips = (prev_close - prev_fix) * 10000 + 0 + real_of_int ccf,
          predicted_fix =
            prev_fix + ((prev_close - prev_fix) * 10000 + 0 + real_of_int ccf) / 10000,
          theoretical_fix =
            prev_fix + ((prev_close - prev_fix) * 10000 + 0 + real_of_int ccf) / 10000
              - real_of_int ccf / 10000,
          volatility_alert =
            (\<bar>prev_fix + ((prev_close - prev_fix) * 10000 + 0 + real_of_int ccf) / 10000
               - prev_close\<bar> > 0.0500)\<rparr>"
    by (rule engine_value [OF basket_absent])
qed

text \<open>
  A download that raised, a frame of one row, a frame without GBPUSD=X, and a
  frame that yields a snapshot.
\<close>

theorem failed_fetch_degrades_witness:
  "fetch_failed (Inl FeedError) \<and> get_market_data (Inl FeedError) = None \<and>
   fetch_failed
     (Inr \<lparr>df_columns = [''AUDUSD=X'', ''CNY=X'', ''EURUSD=X'', ''GBPUSD=X'', ''JPY=X''],
           df_rows = [\<lambda>c. 1]\<rparr>) \<and>
   get_market_data
     (Inr \<lparr>df_columns = [''AUDUSD=X'', ''CNY=X'', ''EURUSD=X'', ''GBPUSD=X'', ''JPY=X''],
           df_rows = [\<lambda>c. 1]\<rparr>) = None \<and>
   fetch_failed
     (Inr \<lparr>df_columns = [''AUDUSD=X'', ''CNY=X'', ''EURUSD=X'', ''JPY=X''],
           df_rows = [\<lambda>c. 1, \<lambda>c. 2]\<rparr>) \<and>
   get_market_data
     (Inr \<lparr>df_columns = [''AUDUSD=X'', ''CNY=X'', ''EURUSD=X'', ''JPY=X''],
           df_rows = [\<lambda>c. 1, \<lambda>c. 2]\<rparr>) = None \<and>
   get_market_data
     (Inr \<lparr>df_columns = [''AUDUSD=X'', ''EURUSD=X'', ''GBPUSD=X'', ''JPY=X''],
           df_rows = [\<lambda>c. 1, \<lambda>c. 2]\<rparr>)
     = Some [(''EURUSD'', [(''rate'', 2), (''chg'', 1)]),
             (''USDJPY'', [(''rate'', 2), (''chg'', 1)]),
             (''GBPUSD'', [(''rate'', 2), (''chg'', 1)]),
             (''AUDUSD'', [(''rate'', 2), (''chg'', 1)])] \<and>
   complete_snapshot
     [(''EURUSD'', [(''rate'', 2), (''chg'', 1)]),
      (''USDJPY'', [(''rate'', 2), (''chg'', 1)]),
      (''GBPUSD'', [(''rate'', 2), (''chg'', 1)]),
      (''AUDUSD'', [(''rate'', 2), (''chg'', 1)])] \<and>
   calculation_engine WEIGHTS 6.9850 6.9820 (-10) None =
     Inr \<lparr>gap_pips = (6.9850 - 6.9820) * 10000,
          basket_pips = 0,
          ccf_pips = -10,
          total_change_pips = (6.9850 - 6.9820) * 10000 + 0 + real_of_int (-10),
          predicted_fix =
            6.9820 + ((6.9850 - 6.9820) * 10000 + 0 + real_of_int (-10)) / 10000,
          theoretical_fix =
            6.9820 + ((6.9850 - 6.9820) * 10000 + 0 + real_of_int (-10)) / 10000
              - real_of_int (-10) / 10000,
          volatility_alert =
            (\<bar>6.9820 + ((6.9850 - 6.9820) * 10000 + 0 + real_of_int (-10)) / 10000
               - 6.9850\<bar> > 0.0500)\<rparr>"
proof -
  let ?one = "\<lparr>df_columns = [''AUDUSD=X'', ''CNY=X'', ''EURUSD=X'', ''GBPUSD=X'', ''JPY=X''],
           df_rows = [\<lambda>c. 1 :: real]\<rparr>"
  let ?missing = "\<lparr>df_columns = [''AUDUSD=X'', ''CNY=X'', ''EURUSD=X'', ''JPY=X''],
           df_rows = [\<lambda>c. 1, \<lambda>c. 2 :: real]\<rparr>"
  let ?good = "\<lparr>df_columns = [''AUDUSD=X'', ''EURUSD=X'', ''GBPUSD=X'', ''JPY=X''],
           df_rows = [\<lambda>c. 1, \<lambda>c. 2 :: real]\<rparr>"
  let ?snap = "[(''EURUSD'', [(''rate'', 2), (''chg'', 1)]),
      (''USDJPY'', [(''rate'', 2), (''chg'', 1)]),
      (''GBPUSD'', [(''rate'', 2), (''chg'', 1)]),
      (''AUDUSD'', [(''rate'', 2), (''chg'', 1 :: real)])]"
  have f: "fetch_failed (Inl FeedError)" "fetch_failed (Inr ?one)" "fetch_failed (Inr ?missing)"
    by (simp_all add: fetch_failed_def used_symbols_def)
  have g: "get_market_data (Inr ?good) = Some ?snap"
    by (simp add: get_market_data_ok fetch_failed_def used_symbols_def spec_snapshot_def
        spec_quote_def latest_def prior_def)
  note t1 = failed_fetch_degrades [of "Inl FeedError" WEIGHTS "6.9820" "6.9850" "-10"]
  note t2 = failed_fetch_degrades [of "Inr ?one"]
  note t3 = failed_fetch_degrades [of "Inr ?missing"]
  note t4 = failed_fetch_degrades [of "Inr ?good"]
  from t1 f(1) have n1: "get_market_data (Inl FeedError) = None" by blast
  from t2 f(2) have n2: "get_market_data (Inr ?one) = None" by blast
  from t3 f(3) have n3: "get_market_data (Inr ?missing) = None" by blast
  from t4 g have c: "complete_snapshot ?snap" by blast
  from t1 f n1 n2 n3 g c show ?thesis by blast
qed

text \<open>
  C5. On a successful fetch (a frame of at least two rows that has the four symbols,
  with nonzero previous closes) the extractor returns the snapshot of exactly the four
  pairs EURUSD, USDJPY, GBPUSD, AUDUSD, each with \<open>rate\<close> the latest close and
  \<open>chg = (latest_close - prior_close) / prior_close\<close> from the last two rows; USDCNY
  is among the requested tickers and is not a key of the snapshot.
\<close>

theorem extractor_snapshot:
  assumes "2 \<le> length (df_rows df)"
    and "set used_symbols \<subseteq> set (df_columns df)"
    and "\<forall>s \<in> set used_symbols. prior df s \<noteq> 0"
  shows "get_market_data (Inr df) =
           Some [(''EURUSD'', [(''rate'', latest df ''EURUSD=X''),
                    (''chg'', (latest df ''EURUSD=X'' - prior df ''EURUSD=X'')
                                / prior df ''EURUSD=X'')]),
                 (''USDJPY'', [(''rate'', latest df ''JPY=X''),
                    (''chg'', (latest df ''JPY=X'' - prior df ''JPY=X'')
                                / prior df ''JPY=X'')]),
                 (''GBPUSD'', [(''rate'', latest df ''GBPUSD=X''),
                    (''chg'', (latest df ''GBPUSD=X'' - prior df ''GBPUSD=X'')
                                / prior df ''GBPUSD=X'')]),
                 (''AUDUSD'', [(''rate'', latest df ''AUDUSD=X''),
                    (''chg'', (latest df ''AUDUSD=X'' - prior df ''AUDUSD=X'')
                                / prior df ''AUDUSD=X'')])] \<and>
         map_of tickers ''USDCNY'' = Some ''CNY=X'' \<and>
         (\<forall>data. get_market_data (Inr df) = Some data \<longrightarrow> map_of data ''USDCNY'' = None)"
proof -
  from assms(1,2) have "\<not> fetch_failed (Inr df)" by (simp add: fetch_failed_def)
  then have "get_market_data (Inr df) = Some (spec_snapshot df)" by (rule get_market_data_ok)
  then show ?thesis
    by (simp add: spec_snapshot_def spec_quote_def tickers_simps)
qed

text \<open>
  A frame of three days with the five symbols.
\<close>

theorem extractor_snapshot_witness:
  "get_market_data
     (Inr \<lparr>df_columns = [''AUDUSD=X'', ''CNY=X'', ''EURUSD=X'', ''GBPUSD=X'', ''JPY=X''],
           df_rows =
             [(\<lambda>c. if c = ''EURUSD=X'' then 1.0950 else if c = ''JPY=X'' then 149
                   else if c = ''GBPUSD=X'' then 1.26 else if c = ''AUDUSD=X'' then 0.66
                   else 7.09),
              (\<lambda>c. if c = ''EURUSD=X'' then 1.1000 else if c = ''JPY=X'' then 150
                   else if c = ''GBPUSD=X'' then 1.25 else if c = ''AUDUSD=X'' then 0.65
                   else 7.10),
              (\<lambda>c. if c = ''EURUSD=X'' then 1.0890 else if c = ''JPY=X'' then 150.45
                   else if c = ''GBPUSD=X'' then 1.2475 else if c = ''AUDUSD=X'' then 0.65
                   else 7.12)]\<rparr>)
   = Some [(''EURUSD'', [(''rate'', 1.0890), (''chg'', -0.01)]),
           (''USDJPY'', [(''rate'', 150.45), (''chg'', 0.003)]),
           (''GBPUSD'', [(''rate'', 1.2475), (''chg'', -0.002)]),
           (''AUDUSD'', [(''rate'', 0.65), (''chg'', 0)])]"
proof -
  let ?df = "\<lparr>df_columns = [''AUDUSD=X'', ''CNY=X'', ''EURUSD=X'', ''GBPUSD=X'', ''JPY=X''],
           df_rows =
             [(\<lambda>c. if c = ''EURUSD=X'' then 1.0950 else if c = ''JPY=X'' then 149
                   else if c = ''GBPUSD=X'' then 1.26 else if c = ''AUDUSD=X'' then 0.66
                   else 7.09),
              (\<lambda>c. if c = ''EURUSD=X'' then 1.1000 else if c = ''JPY=X'' then 150
                   else if c = ''GBPUSD=X'' then 1.25 else if c = ''AUDUSD=X'' then 0.65
                   else 7.10),
              (\<lambda>c. if c = ''EURUSD=X'' then 1.0890 else if c = ''JPY=X'' then 150.45
                   else if c = ''GBPUSD=X'' then 1.2475 else if c = ''AUDUSD=X'' then 0.65
                   else (7.12 :: real))]\<rparr>"
  have h1: "2 \<le> length (df_rows ?df)" by simp
  have h2: "set used_symbols \<subseteq> set (df_columns ?df)" by (simp add: used_symbols_def)
  have h3: "\<forall>s \<in> set used_symbols. prior ?df s \<noteq> 0"
    by (simp add: used_symbols_def prior_def)
  from extractor_snapshot [OF h1 h2 h3, THEN conjunct1] show ?thesis
    by (simp add: latest_def prior_def)
qed

text \<open>
  C6. The slider value enters the total as it is, for every integer, inside or outside
  the slider's range: the engine records it unchanged, adds it to the gap and basket
  components, and the total moves by exactly the difference of two slider values. The
  bounds -100 and 100 are the slider's, not the engine's.
\<close>

theorem ccf_passed_verbatim:
  assumes "calculation_engine W prev_close prev_fix ccf market_data = Inr r"
  shows "ccf_pips r = ccf \<and>
         total_change_pips r = gap_pips r + basket_pips r + real_of_int ccf \<and>
         (\<forall>ccf'. \<exists>r'. calculation_engine W prev_close prev_fix ccf' market_data = Inr r' \<and>
            ccf_pips r' = ccf' \<and>
            gap_pips r' = gap_pips r \<and> basket_pips r' = basket_pips r \<and>
            total_change_pips r' = total_change_pips r + real_of_int (ccf' - ccf))"
  using assms
proof (rule engine_cases)
  fix b
  assume b: "calculate_basket_impact W prev_fix market_data = Inr b"
    and r: "r = \<lparr>gap_pips = (prev_close - prev_fix) * 10000,
          basket_pips = b,
          ccf_pips = ccf,
          total_change_pips = (prev_close - prev_fix) * 10000 + b + real_of_int ccf,
          predicted_fix =
            prev_fix + ((prev_close - prev_fix) * 10000 + b + real_of_int ccf) / 10000,
          theoretical_fix =
            prev_fix + ((prev_close - prev_fix) * 10000 + b + real_of_int ccf) / 10000
              - real_of_int ccf / 10000,
          volatility_alert =
            (\<bar>prev_fix + ((prev_close - prev_fix) * 10000 + b + real_of_int ccf) / 10000
               - prev_close\<bar> > 0.0500)\<rparr>"
  show ?thesis
    by (simp add: r engine_value [OF b])
qed

text \<open>
  The slider value 250, above the slider's maximum.
\<close>

theorem ccf_passed_verbatim_witness:
  "\<exists>r. calculation_engine WEIGHTS 6.9850 6.9820 250 None = Inr r \<and>
     \<not> 250 \<le> ccf_slider_max \<and>
     ccf_pips r = 250 \<and>
     total_change_pips r = gap_pips r + basket_pips r + real_of_int 250 \<and>
     total_change_pips r = 280"
proof -
  let ?r = "\<lparr>gap_pips = 30, basket_pips = 0, ccf_pips = 250, total_change_pips = 280,
             predicted_fix = 7.0100, theoretical_fix = 6.9850, volatility_alert = False\<rparr>"
  have h: "calculation_engine WEIGHTS 6.9850 6.9820 250 None = Inr ?r"
    by (simp add: calculation_engine_def calculate_basket_impact_def Let_def)
  note c = ccf_passed_verbatim [OF h]
  have v: "total_change_pips ?r = 280" "\<not> 250 \<le> ccf_slider_max"
    by (simp_all add: ccf_slider_max_def)
  from h c v show ?thesis by blast
qed

text \<open>
  C7. The only division of the basket impact is by \<open>1 - W[USD]\<close>: the function raises
  ZeroDivisionError only if \<open>W[USD] = 1\<close>. With \<open>W[USD] < 1\<close> the denominator is
  nonzero and the error cannot occur; the configured table has \<open>W[USD] = 0.198\<close>, so
  the script's function never raises it.
\<close>

theorem division_by_zero_unreachable:
  "(calculate_basket_impact W prev_fix market_data = Inl ZeroDivisionError \<longrightarrow>
      map_of W ''USD'' = Some 1) \<and>
   (\<forall>u. map_of W ''USD'' = Some u \<longrightarrow> u < 1 \<longrightarrow>
      1 - u \<noteq> 0 \<and>
      calculate_basket_impact W prev_fix market_data \<noteq> Inl ZeroDivisionError) \<and>
   map_of WEIGHTS ''USD'' = Some 0.198 \<and>
   calculate_basket_impact WEIGHTS prev_fix market_data \<noteq> Inl ZeroDivisionError"
proof (intro conjI allI impI)
  assume "calculate_basket_impact W prev_fix market_data = Inl ZeroDivisionError"
  then show "map_of W ''USD'' = Some 1" by (rule basket_zero_division)
next
  fix u :: real assume "u < 1"
  then show "1 - u \<noteq> 0" by simp
next
  fix u :: real assume "map_of W ''USD'' = Some u" and "u < 1"
  then show "calculate_basket_impact W prev_fix market_data \<noteq> Inl ZeroDivisionError"
    using basket_zero_division [of W prev_fix market_data] by auto
next
  show "map_of WEIGHTS ''USD'' = Some 0.198" by (simp add: WEIGHTS_def)
next
  show "calculate_basket_impact WEIGHTS prev_fix market_data \<noteq> Inl ZeroDivisionError"
    using basket_zero_division [of WEIGHTS prev_fix market_data] by (auto simp: WEIGHTS_def)
qed

text \<open>
  A table with \<open>W[USD] = 1\<close>, where the error occurs, and the configured table.
\<close>

theorem division_by_zero_unreachable_witness:
  "calculate_basket_impact [(''USD'', 1), (''EUR'', 0.180)] 7.0000
     (Some [(''EURUSD'', [(''rate'', 1.0850), (''chg'', -0.01)])]) = Inl ZeroDivisionError \<and>
   map_of [(''USD'', 1), (''EUR'', 0.180 :: real)] ''USD'' = Some 1 \<and>
   map_of WEIGHTS ''USD'' = Some 0.198 \<and> (0.198 :: real) < 1 \<and>
   1 - (0.198 :: real) \<noteq> 0 \<and>
   calculate_basket_impact WEIGHTS 7.0000
     (Some [(''EURUSD'', [(''rate'', 1.0850), (''chg'', -0.01)])]) \<noteq> Inl ZeroDivisionError"
proof -
  let ?W = "[(''USD'', 1), (''EUR'', 0.180 :: real)]"
  let ?m = "Some [(''EURUSD'', [(''rate'', 1.0850), (''chg'', -0.01 :: real)])]"
  have h: "calculate_basket_impact ?W 7.0000 ?m = Inl ZeroDivisionError"
    by (simp add: calculate_basket_impact_def chg_of_def getitem_def weight_share_def
        py_truediv_def)
  have u: "map_of WEIGHTS ''USD'' = Some 0.198" "(0.198 :: real) < 1"
    by (simp_all add: WEIGHTS_def)
  from division_by_zero_unreachable [of ?W "7.0000" ?m] h
  have a: "map_of ?W ''USD'' = Some 1" by blast
  from division_by_zero_unreachable [of WEIGHTS "7.0000" ?m] u
  have b: "1 - (0.198 :: real) \<noteq> 0 \<and>
      calculate_basket_impact WEIGHTS 7.0000 ?m \<noteq> Inl ZeroDivisionError"
    by blast
  from h a u b show ?thesis by blast
qed

text \<open>
  C8. With the configured weights, \<open>chg[EURUSD] = -0.01\<close>, the other changes 0 and
  \<open>prev_fix = 7.0000\<close>, the basket component is
  \<open>+(0.01 * 0.180 / 0.802) * 7.0000 * 10000\<close>, within 0.05 of 157.1 pips.
\<close>

theorem sign_test:
  "calculate_basket_impact WEIGHTS 7.0000
     (Some [(''EURUSD'', [(''rate'', r1), (''chg'', -0.01)]),
            (''USDJPY'', [(''rate'', r2), (''chg'', 0)]),
            (''GBPUSD'', [(''rate'', r3), (''chg'', 0)]),
            (''AUDUSD'', [(''rate'', r4), (''chg'', 0)])])
     = Inr ((0.01 * 0.180 / 0.802) * 7.0000 * 10000) \<and>
   \<bar>(0.01 * 0.180 / 0.802) * 7.0000 * 10000 - 157.1\<bar> < (0.05 :: real)"
  by (simp add: calculate_basket_impact_def chg_of_def getitem_def weight_share_def
      py_truediv_def WEIGHTS_def)

text \<open>
  C9. The alert is shown exactly when \<open>abs(predicted_fix - prev_close) > 0.0500\<close>, where
  \<open>predicted_fix\<close> is the final prediction: the theoretical fix plus the CCF.
\<close>

theorem alert_on_predicted_fix:
  assumes "calculation_engine W prev_close prev_fix ccf market_data = Inr r"
  shows "(volatility_alert r \<longleftrightarrow> \<bar>predicted_fix r - prev_close\<bar> > 0.0500) \<and>
         predicted_fix r = theoretical_fix r + real_of_int ccf / 10000"
  using assms by (rule engine_cases) simp

text \<open>
  With the CCF at 600 pips and no market data the prediction is 0.06 above the close
  and the alert is shown, while the theoretical fix equals the close.
\<close>

theorem alert_on_predicted_fix_witness:
  "\<exists>r. calculation_engine WEIGHTS 6.9850 6.9820 600 None = Inr r \<and>
     (volatility_alert r \<longleftrightarrow> \<bar>predicted_fix r - 6.9850\<bar> > 0.0500) \<and>
     predicted_fix r = theoretical_fix r + real_of_int 600 / 10000 \<and>
     volatility_alert r \<and> \<not> \<bar>theoretical_fix r - 6.9850\<bar> > 0.0500"
proof -
  let ?r = "\<lparr>gap_pips = 30, basket_pips = 0, ccf_pips = 600, total_change_pips = 630,
             predicted_fix = 7.0450, theoretical_fix = 6.9850, volatility_alert = True\<rparr>"
  have h: "calculation_engine WEIGHTS 6.9850 6.9820 600 None = Inr ?r"
    by (simp add: calculation_engine_def calculate_basket_impact_def Let_def)
  note c = alert_on_predicted_fix [OF h]
  have v: "volatility_alert ?r" "\<not> \<bar>theoretical_fix ?r - 6.9850\<bar> > 0.0500"
    by simp_all
  from h c v show ?thesis by blast
qed

text \<open>
  C10. The presence check is by falsiness: the empty dict is handled as \<open>None\<close> is, and
  the function returns 0.0 for it, whatever the weights and the previous fixing, with
  no lookup and so no KeyError.
\<close>

theorem empty_snapshot_is_absent:
  "calculate_basket_impact W prev_fix (Some []) = Inr 0 \<and>
   calculate_basket_impact W prev_fix (Some []) = calculate_basket_impact W prev_fix None"
  by (simp add: calculate_basket_impact_def)

end
